theory Spec2Isabelle
  imports Main
begin

section \<open>Errors and the operating environment\<close>

text \<open>
  Go errors are values of the interface type \<open>error\<close>; a nil error is \<open>None\<close>, a
  non-nil one \<open>Some e\<close>. The constructors are the errors that
  \<^verbatim>\<open>cfg/config_files.go\<close> creates itself (\<open>errors.New\<close>) or receives from the
  standard library: a failed \<open>user.Current()\<close>, the condition \<open>os.IsNotExist\<close>
  recognises, its counterpart for a path that exists already, and any other failed
  system call.
\<close>

datatype error =
    ErrorsNew string
  | UserCurrentError string
  | ErrNotExist
  | ErrExist
  | SyscallError string

text \<open>\<open>os.IsNotExist\<close>; it is false of the nil error.\<close>

definition os_IsNotExist :: "error option \<Rightarrow> bool" where
  "os_IsNotExist err = (err = Some ErrNotExist)"

text \<open>The two errors of path resolution, after their names in the specification.\<close>

definition MalformedPath :: error where
  "MalformedPath = ErrorsNew ''cannot expand user-specific home dir''"

fun HomeDirUnavailable :: "error \<Rightarrow> bool" where
  "HomeDirUnavailable (UserCurrentError m) = True"
| "HomeDirUnavailable (ErrorsNew m) = (m = ''cannot find user-specific home dir'')"
| "HomeDirUnavailable ErrNotExist = False"
| "HomeDirUnavailable ErrExist = False"
| "HomeDirUnavailable (SyscallError m) = False"

text \<open>\<open>user.User\<close>, of which the code reads \<open>HomeDir\<close> only.\<close>

record User =
  HomeDir :: string

text \<open>
  A node of the file system is a regular file with its bytes, or a directory.
  \<open>os.FileInfo\<close> carries what \<open>os.Stat\<close> reports of a node.
\<close>

datatype node = File string | Dir

record FileInfo =
  Size :: nat
  IsDir :: bool

text \<open>What the program prints: the two formatted diagnostics and \<open>fmt.Println(err)\<close>.\<close>

datatype report =
    XdgConfigDirCreateError error
  | WtfConfigDirCreateError error
  | Println error

text \<open>
  The world the package runs in. \<open>files\<close> maps a path name, as the program passes
  it to the operating system, to the node found there; the nodes under a directory \<open>d\<close>
  are those named \<open>d/...\<close>. \<open>user_Current\<close> is the result of \<open>user.Current()\<close>.
  \<open>dir_size\<close> is the size the system reports for a directory (Go leaves it
  system-dependent). The \<open>..._fault\<close> fields are the failures the environment imposes on
  a system call for reasons outside \<open>files\<close> (permissions, a missing parent, a full
  disk); each names the failing call's path and gives the error text, and the error is
  one that \<open>os.IsNotExist\<close> does not recognise. An interrupted recursive copy or removal
  also tells which relative paths it had already handled.
\<close>

record world =
  files :: "string \<rightharpoonup> node"
  user_Current :: "string + User"
  stdout :: "report list"
  dir_size :: nat
  stat_fault :: "string \<Rightarrow> string option"
  mkdir_fault :: "string \<Rightarrow> string option"
  create_fault :: "string \<Rightarrow> string option"
  write_fault :: "string \<Rightarrow> string option"
  copy_fault :: "string \<Rightarrow> string \<Rightarrow> (string \<times> (string \<Rightarrow> bool)) option"
  remove_fault :: "string \<Rightarrow> (string \<times> (string \<Rightarrow> bool)) option"

section \<open>\<open>path/filepath\<close> on a Unix system\<close>

text \<open>
  \<open>filepath.Join\<close> and \<open>filepath.Clean\<close> belong to the Go standard library. They are
  modelled for the separator \<open>/\<close>, after the rules the library documents: \<open>Clean\<close>
  replaces several separators by one, eliminates each \<open>.\<close> element, eliminates each
  inner \<open>..\<close> element with the element before it, eliminates \<open>..\<close> elements that
  begin a rooted path, and returns \<open>.\<close> for an empty result; the result ends in a
  separator only if it is the root. \<open>Join\<close> ignores leading empty elements, joins the
  rest with separators and cleans the result.
\<close>

fun split_sep :: "string \<Rightarrow> string list" where
  "split_sep [] = [[]]"
| "split_sep (c # cs) =
     (if c = CHR ''/'' then [] # split_sep cs
      else (case split_sep cs of [] \<Rightarrow> [[c]] | x # xs \<Rightarrow> (c # x) # xs))"

fun join_sep :: "string list \<Rightarrow> string" where
  "join_sep [] = []"
| "join_sep [x] = x"
| "join_sep (x # y # ys) = x @ CHR ''/'' # join_sep (y # ys)"

definition is_element :: "string \<Rightarrow> bool" where
  "is_element e = (e \<noteq> [] \<and> e \<noteq> ''.'')"

definition elements :: "string \<Rightarrow> string list" where
  "elements path = filter is_element (split_sep path)"

text \<open>One element of the path against the output so far (last element first).\<close>

definition clean_step :: "bool \<Rightarrow> string list \<Rightarrow> string \<Rightarrow> string list" where
  "clean_step rooted out e =
     (if e = ''..'' then
        (if out \<noteq> [] \<and> hd out \<noteq> ''..'' then tl out
         else if rooted then out
         else ''..'' # out)
      else e # out)"

definition filepath_Clean :: "string \<Rightarrow> string" where
  "filepath_Clean path =
     (if path = [] then ''.''
      else
        let rooted = (hd path = CHR ''/'');
            out = foldl (clean_step rooted) [] (elements path)
        in if rooted then CHR ''/'' # join_sep (rev out)
           else if out = [] then ''.''
           else join_sep (rev out))"

fun filepath_Join :: "string list \<Rightarrow> string" where
  "filepath_Join [] = []"
| "filepath_Join (e # es) =
     (if e = [] then filepath_Join es else filepath_Clean (join_sep (e # es)))"

section \<open>Path resolution\<close>

definition XdgConfigDir :: string where
  "XdgConfigDir = ''~/.config/''"

definition WtfConfigDirV1 :: string where
  "WtfConfigDirV1 = ''~/.wtf/''"

definition WtfConfigDirV2 :: string where
  "WtfConfigDirV2 = ''~/.config/wtf/''"

text \<open>
  A Go function returning \<open>(string, error)\<close> returns a pair here: the string is
  returned also when the error is not nil, and callers that discard the error use it.
\<close>

definition home :: "world \<Rightarrow> string \<times> error option" where
  "home w =
     (case user_Current w of
        Inl m \<Rightarrow> ([], Some (UserCurrentError m))
      | Inr currentUser \<Rightarrow>
          if HomeDir currentUser = [] then
            ([], Some (ErrorsNew ''cannot find user-specific home dir''))
          else (HomeDir currentUser, None))"

definition expandHomeDir :: "world \<Rightarrow> string \<Rightarrow> string \<times> error option" where
  "expandHomeDir w path =
     (if length path = 0 then (path, None)
      else if path ! 0 \<noteq> CHR ''~'' then (path, None)
      else if length path > 1 \<and> path ! 1 \<noteq> CHR ''/'' \<and> path ! 1 \<noteq> CHR 0x5C then
        ([], Some (ErrorsNew ''cannot expand user-specific home dir''))
      else
        (case home w of
           (dir, Some err) \<Rightarrow> ([], Some err)
         | (dir, None) \<Rightarrow> (filepath_Join [dir, drop 1 path], None)))"

definition WtfConfigDir :: "world \<Rightarrow> string \<times> error option" where
  "WtfConfigDir w =
     (case expandHomeDir w WtfConfigDirV2 of
        (configDir, Some err) \<Rightarrow> ([], Some err)
      | (configDir, None) \<Rightarrow> (configDir, None))"

section \<open>The file-system calls\<close>

text \<open>
  Each call first rejects the empty path (\<open>ENOENT\<close>), then fails if the environment
  imposes a fault on it, and otherwise acts on \<open>files\<close>. A call that changes the
  file system returns the new world next to its error.
\<close>

definition os_Stat :: "world \<Rightarrow> string \<Rightarrow> error + FileInfo" where
  "os_Stat w name =
     (if name = [] then Inl ErrNotExist
      else case stat_fault w name of
        Some m \<Rightarrow> Inl (SyscallError m)
      | None \<Rightarrow>
          (case files w name of
             None \<Rightarrow> Inl ErrNotExist
           | Some (File b) \<Rightarrow> Inr \<lparr>Size = length b, IsDir = False\<rparr>
           | Some Dir \<Rightarrow> Inr \<lparr>Size = dir_size w, IsDir = True\<rparr>))"

text \<open>The error of a call's result: \<open>_, err := f(...)\<close>.\<close>

fun err_of :: "error + 'a \<Rightarrow> error option" where
  "err_of (Inl err) = Some err"
| "err_of (Inr v) = None"

definition os_Mkdir :: "world \<Rightarrow> string \<Rightarrow> world \<times> error option" where
  "os_Mkdir w name =
     (if name = [] then (w, Some ErrNotExist)
      else case mkdir_fault w name of
        Some m \<Rightarrow> (w, Some (SyscallError m))
      | None \<Rightarrow>
          (case files w name of
             Some n \<Rightarrow> (w, Some ErrExist)
           | None \<Rightarrow> (w\<lparr>files := (files w)(name \<mapsto> Dir)\<rparr>, None)))"

text \<open>\<open>os.Create\<close> creates the file or truncates it.\<close>

definition os_Create :: "world \<Rightarrow> string \<Rightarrow> world \<times> error option" where
  "os_Create w name =
     (if name = [] then (w, Some ErrNotExist)
      else case create_fault w name of
        Some m \<Rightarrow> (w, Some (SyscallError m))
      | None \<Rightarrow>
          (case files w name of
             Some Dir \<Rightarrow> (w, Some (SyscallError ''is a directory''))
           | _ \<Rightarrow> (w\<lparr>files := (files w)(name \<mapsto> File [])\<rparr>, None)))"

definition ioutil_WriteFile :: "world \<Rightarrow> string \<Rightarrow> string \<Rightarrow> world \<times> error option" where
  "ioutil_WriteFile w filename data =
     (if filename = [] then (w, Some ErrNotExist)
      else case write_fault w filename of
        Some m \<Rightarrow> (w, Some (SyscallError m))
      | None \<Rightarrow>
          (case files w filename of
             Some Dir \<Rightarrow> (w, Some (SyscallError ''is a directory''))
           | _ \<Rightarrow> (w\<lparr>files := (files w)(filename \<mapsto> File data)\<rparr>, None)))"

text \<open>
  \<open>rel_path d k\<close> is the path of \<open>k\<close> relative to the directory \<open>d\<close>: empty for
  \<open>d\<close> itself, \<open>/...\<close> for a node under it, none for a node elsewhere. So
  \<open>d @ r = k\<close> whenever \<open>rel_path d k = Some r\<close>.
\<close>

definition rel_path :: "string \<Rightarrow> string \<Rightarrow> string option" where
  "rel_path d k =
     (if k = d then Some []
      else if take (length d + 1) k = d @ ''/'' then Some (drop (length d) k)
      else None)"

text \<open>
  \<open>os.RemoveAll\<close> removes the path and everything under it; a path that does not
  exist is no error. When a fault interrupts it, the nodes already removed are gone.
\<close>

definition remove_entries ::
  "(string \<rightharpoonup> node) \<Rightarrow> string \<Rightarrow> (string \<Rightarrow> bool) \<Rightarrow> (string \<rightharpoonup> node)" where
  "remove_entries fs path sel =
     (\<lambda>k. case rel_path path k of
            None \<Rightarrow> fs k
          | Some r \<Rightarrow> if sel r then None else fs k)"

definition os_RemoveAll :: "world \<Rightarrow> string \<Rightarrow> world \<times> error option" where
  "os_RemoveAll w path =
     (if path = [] then (w, None)
      else case remove_fault w path of
        Some (m, gone) \<Rightarrow>
          (w\<lparr>files := remove_entries (files w) path gone\<rparr>, Some (SyscallError m))
      | None \<Rightarrow> (w\<lparr>files := remove_entries (files w) path (\<lambda>r. True)\<rparr>, None))"

section \<open>The recursive copy\<close>

text \<open>
  Modelled from the spec: the copy of a directory's entries, which \<open>Copy\<close> below
  performs. Every selected node at or under \<open>src\<close> appears at the same relative path
  under \<open>dst\<close>; what else is under \<open>dst\<close> stays.
\<close>

definition copy_entries ::
  "(string \<rightharpoonup> node) \<Rightarrow> string \<Rightarrow> string \<Rightarrow> (string \<Rightarrow> bool) \<Rightarrow> (string \<rightharpoonup> node)" where
  "copy_entries fs src dst sel =
     (\<lambda>k. case rel_path dst k of
            None \<Rightarrow> fs k
          | Some r \<Rightarrow>
              if sel r then (case fs (src @ r) of None \<Rightarrow> fs k | Some n \<Rightarrow> Some n)
              else fs k)"

text \<open>
  Modelled from the spec: \<open>Copy\<close> is called by \<open>migrateOldConfig\<close> and defined in a
  file of the package other than \<^verbatim>\<open>config_files.go\<close>. The specification (4.5): a
  regular file is copied with its bytes, and no partial file is left on failure; a
  directory is created at the destination and every entry inside it is copied
  recursively, preserving the relative structure; the copy fails on the first entry that
  cannot be copied and leaves a possibly partial destination tree. A source that cannot
  be examined is an error. Permission bits are not part of \<open>node\<close>.
\<close>

definition Copy :: "world \<Rightarrow> string \<Rightarrow> string \<Rightarrow> world \<times> error option" where
  "Copy w src dst =
     (case os_Stat w src of
        Inl err \<Rightarrow> (w, Some err)
      | Inr info \<Rightarrow>
          if IsDir info then
            (case copy_fault w src dst of
               Some (m, done) \<Rightarrow>
                 (w\<lparr>files := copy_entries (files w) src dst done\<rparr>, Some (SyscallError m))
             | None \<Rightarrow>
                 (w\<lparr>files := copy_entries (files w) src dst (\<lambda>r. True)\<rparr>, None))
          else
            (case copy_fault w src dst of
               Some (m, done) \<Rightarrow> (w, Some (SyscallError m))
             | None \<Rightarrow> (w\<lparr>files := (files w)(dst := files w src)\<rparr>, None)))"

section \<open>Bootstrap and migration\<close>

text \<open>
  A procedure of the package returns, or ends the process: \<open>os.Exit(code)\<close>, or a
  panic with the value it was raised with. The world it leaves is kept in each case.
\<close>

datatype panic = PanicError "error option" | NilDereference

datatype outcome =
    Returned world
  | Exited int world
  | Panicked panic world

fun final :: "outcome \<Rightarrow> world" where
  "final (Returned w) = w"
| "final (Exited code w) = w"
| "final (Panicked v w) = w"

text \<open>Sequencing of two procedures: the second runs if the first returned.\<close>

fun and_then :: "outcome \<Rightarrow> (world \<Rightarrow> outcome) \<Rightarrow> outcome" where
  "and_then (Returned w) f = f w"
| "and_then (Exited code w) f = Exited code w"
| "and_then (Panicked v w) f = Panicked v w"

definition print :: "report \<Rightarrow> world \<Rightarrow> world" where
  "print r w = w\<lparr>stdout := stdout w @ [r]\<rparr>"

definition CreateFile :: "world \<Rightarrow> string \<Rightarrow> world \<times> string \<times> error option" where
  "CreateFile w fileName =
     (case WtfConfigDir w of
        (configDir, Some err) \<Rightarrow> (w, [], Some err)
      | (configDir, None) \<Rightarrow>
          let filePath = configDir @ ''/'' @ fileName in
          (case err_of (os_Stat w filePath) of
             Some err \<Rightarrow>
               if os_IsNotExist (Some err) then
                 (case os_Create w filePath of
                    (w1, Some err1) \<Rightarrow> (w1, [], Some err1)
                  | (w1, None) \<Rightarrow> (w1, filePath, None))
               else (w, [], Some err)
           | None \<Rightarrow> (w, filePath, None)))"

definition createXdgConfigDir :: "world \<Rightarrow> outcome" where
  "createXdgConfigDir w =
     (let xdgConfigDir = fst (expandHomeDir w XdgConfigDir) in
      if os_IsNotExist (err_of (os_Stat w xdgConfigDir)) then
        (case os_Mkdir w xdgConfigDir of
           (w1, Some err) \<Rightarrow> Exited 1 (print (XdgConfigDirCreateError err) w1)
         | (w1, None) \<Rightarrow> Returned w1)
      else Returned w)"

definition createWtfConfigDir :: "world \<Rightarrow> outcome" where
  "createWtfConfigDir w =
     (let wtfConfigDir = fst (WtfConfigDir w) in
      if os_IsNotExist (err_of (os_Stat w wtfConfigDir)) then
        (case os_Mkdir w wtfConfigDir of
           (w1, Some err) \<Rightarrow> Exited 1 (print (WtfConfigDirCreateError err) w1)
         | (w1, None) \<Rightarrow> Returned w1)
      else Returned w)"

text \<open>
  \<open>defaultConfigFile\<close> is a constant of the package declared outside
  \<^verbatim>\<open>config_files.go\<close>; it is a parameter here. \<open>file\<close> is nil when the second
  \<open>os.Stat\<close> fails, and \<open>file.Size()\<close> then panics. Both panics of the source are
  raised with the variable \<open>err\<close> that \<open>CreateFile\<close> returned.
\<close>

definition createWtfConfigFile :: "string \<Rightarrow> world \<Rightarrow> outcome" where
  "createWtfConfigFile defaultConfigFile w =
     (case CreateFile w ''config.yml'' of
        (w1, filePath, err) \<Rightarrow>
          if err \<noteq> None then Panicked (PanicError err) w1
          else
            (case os_Stat w1 filePath of
               Inl e \<Rightarrow> Panicked NilDereference w1
             | Inr file \<Rightarrow>
                 if Size file = 0 then
                   (case ioutil_WriteFile w1 filePath defaultConfigFile of
                      (w2, Some werr) \<Rightarrow> Panicked (PanicError err) w2
                    | (w2, None) \<Rightarrow> Returned w2)
                 else Returned w1))"

definition migrateOldConfig :: "world \<Rightarrow> outcome" where
  "migrateOldConfig w =
     (let srcDir = fst (expandHomeDir w WtfConfigDirV1);
          destDir = fst (expandHomeDir w WtfConfigDirV2)
      in
        if os_IsNotExist (err_of (os_Stat w srcDir)) then Returned w
        else if err_of (os_Stat w destDir) = None then Returned w
        else
          (case Copy w srcDir destDir of
             (w1, Some err) \<Rightarrow> Panicked (PanicError (Some err)) w1
           | (w1, None) \<Rightarrow>
               if err_of (os_Stat w1 destDir) = None then
                 (case os_RemoveAll w1 srcDir of
                    (w2, Some err) \<Rightarrow> Returned (print (Println err) w2)
                  | (w2, None) \<Rightarrow> Returned w2)
               else Returned w1))"

text \<open>
  The two configuration roots, by the names the specification gives them: the values of
  \<open>srcDir\<close> and \<open>destDir\<close> in \<open>migrateOldConfig\<close>.
\<close>

definition LegacyDirectory :: "world \<Rightarrow> string" where
  "LegacyDirectory w = fst (expandHomeDir w WtfConfigDirV1)"

definition CurrentDirectory :: "world \<Rightarrow> string" where
  "CurrentDirectory w = fst (expandHomeDir w WtfConfigDirV2)"

definition Initialize :: "string \<Rightarrow> world \<Rightarrow> outcome" where
  "Initialize defaultConfigFile w =
     and_then (and_then (and_then (migrateOldConfig w) createXdgConfigDir)
       createWtfConfigDir) (createWtfConfigFile defaultConfigFile)"

section \<open>The specification's reading of directory provisioning\<close>

text \<open>
  The specification (4.2, 7) describes directory provisioning as resolving the path and,
  when resolution fails, going on with the path as it was given. This definition follows
  those words, to be compared with \<open>createXdgConfigDir\<close> and \<open>createWtfConfigDir\<close>,
  which follow the source.
\<close>

definition spec_ensure_directory :: "(error \<Rightarrow> report) \<Rightarrow> string \<Rightarrow> world \<Rightarrow> outcome" where
  "spec_ensure_directory report dirPath w =
     (let dir = (case expandHomeDir w dirPath of
                   (resolved, None) \<Rightarrow> resolved
                 | (resolved, Some err) \<Rightarrow> dirPath)
      in if os_IsNotExist (err_of (os_Stat w dir)) then
           (case os_Mkdir w dir of
              (w1, Some err) \<Rightarrow> Exited 1 (print (report err) w1)
            | (w1, None) \<Rightarrow> Returned w1)
         else Returned w)"

section \<open>Sample worlds\<close>

text \<open>
  A user whose home directory \<open>/home/u\<close> exists and is empty, in a fault-free
  environment; the concrete worlds of the examples below are variations of it.
\<close>

definition world0 :: world where
  "world0 =
     \<lparr>files = [''/home/u'' \<mapsto> Dir],
      user_Current = Inr \<lparr>HomeDir = ''/home/u''\<rparr>,
      stdout = [],
      dir_size = 4096,
      stat_fault = (\<lambda>p. None),
      mkdir_fault = (\<lambda>p. None),
      create_fault = (\<lambda>p. None),
      write_fault = (\<lambda>p. None),
      copy_fault = (\<lambda>s d. None),
      remove_fault = (\<lambda>p. None)\<rparr>"

text \<open>
  A process whose user cannot be looked up; and the same where the working directory
  holds a directory named \<open>~\<close> with a directory \<open>.config\<close> in it.
\<close>

definition world_nohome :: world where
  "world_nohome = world0\<lparr>user_Current := Inl ''user: unknown userid 1000''\<rparr>"

definition world_tilde :: world where
  "world_tilde =
     world_nohome\<lparr>files := (files world_nohome)(''~'' \<mapsto> Dir, ''~/.config/'' \<mapsto> Dir)\<rparr>"

text \<open>A user whose home directory is recorded with a trailing separator.\<close>

definition world_slash :: world where
  "world_slash = world0\<lparr>user_Current := Inr \<lparr>HomeDir = ''/home/u/''\<rparr>\<rparr>"

text \<open>The base directory exists; then the application's directory too.\<close>

definition world_xdg :: world where
  "world_xdg = world0\<lparr>files := (files world0)(''/home/u/.config'' \<mapsto> Dir)\<rparr>"

definition world_wtf :: world where
  "world_wtf = world_xdg\<lparr>files := (files world_xdg)(''/home/u/.config/wtf'' \<mapsto> Dir)\<rparr>"

text \<open>The configuration file holds \<open>foo: bar\<close>.\<close>

definition world_seeded :: world where
  "world_seeded =
     world_wtf\<lparr>files := (files world_wtf)(''/home/u/.config/wtf/config.yml'' \<mapsto> File ''foo: bar'')\<rparr>"

text \<open>The configuration file cannot be written.\<close>

definition world_unwritable :: world where
  "world_unwritable =
     world_wtf\<lparr>write_fault :=
       (\<lambda>p. if p = ''/home/u/.config/wtf/config.yml'' then Some ''no space left on device''
            else None)\<rparr>"

text \<open>
  A legacy directory with \<open>settings.txt\<close> holding \<open>abc\<close>, without and with a current
  directory next to it.
\<close>

definition world_legacy :: world where
  "world_legacy =
     world0\<lparr>files :=
       (files world0)(''/home/u/.wtf'' \<mapsto> Dir, ''/home/u/.wtf/settings.txt'' \<mapsto> File ''abc'')\<rparr>"

text \<open>
  The legacy directory alone, where the recursive copy is interrupted by a failure
  after it has created the destination directory and before it has copied an entry.
\<close>

definition world_copy_fails :: world where
  "world_copy_fails =
     world_legacy\<lparr>copy_fault := (\<lambda>s d. Some (''input/output error'', (\<lambda>r. r = [])))\<rparr>"

definition world_both :: world where
  "world_both = world_legacy\<lparr>files := (files world_legacy)(''/home/u/.config/wtf'' \<mapsto> Dir)\<rparr>"

lemmas worlds =
  world0_def world_nohome_def world_tilde_def world_slash_def world_xdg_def world_wtf_def world_seeded_def
  world_unwritable_def world_legacy_def world_copy_fails_def world_both_def

section \<open>Lemmas on \<open>filepath.Clean\<close> and \<open>home\<close>\<close>

lemma split_sep_not_Nil: "split_sep s \<noteq> []"
  by (induction s) (auto split: list.splits)

lemma split_sep_append:
  "split_sep (a @ CHR ''/'' # b) = split_sep a @ split_sep b"
proof (induction a)
  case Nil
  show ?case by simp
next
  case (Cons c a)
  obtain x xs where sa: "split_sep a = x # xs"
    using split_sep_not_Nil [of a] by (cases "split_sep a") auto
  with Cons show ?case by simp
qed

lemma elements_append: "elements (a @ CHR ''/'' # b) = elements a @ elements b"
  by (simp add: elements_def split_sep_append)

lemma elements_Nil: "elements [] = []"
  by (simp add: elements_def is_element_def)

lemma elements_sep: "elements (CHR ''/'' # b) = elements b"
  using elements_append [of "[]" b] by (simp add: elements_Nil)

lemma Clean_double_sep:
  assumes "h \<noteq> []"
  shows "filepath_Clean (h @ CHR ''/'' # CHR ''/'' # rest) = filepath_Clean (h @ CHR ''/'' # rest)"
proof -
  have "elements (h @ CHR ''/'' # CHR ''/'' # rest) = elements (h @ CHR ''/'' # rest)"
    by (simp add: elements_append elements_sep)
  moreover have "hd (h @ CHR ''/'' # CHR ''/'' # rest) = hd (h @ CHR ''/'' # rest)"
    using assms by simp
  ultimately show ?thesis
    using assms by (simp add: filepath_Clean_def)
qed

lemma Clean_trailing_sep:
  assumes "h \<noteq> []"
  shows "filepath_Clean (h @ [CHR ''/'']) = filepath_Clean h"
proof -
  have "elements (h @ [CHR ''/'']) = elements h"
    by (simp add: elements_append elements_Nil)
  then show ?thesis
    using assms by (simp add: filepath_Clean_def)
qed

lemma home_cases:
  "home w = (dir, None) \<longleftrightarrow> (\<exists>u. user_Current w = Inr u \<and> HomeDir u = dir \<and> dir \<noteq> [])"
  by (auto simp: home_def split: sum.splits)

lemma home_not_Nil: "home w = (dir, None) \<Longrightarrow> dir \<noteq> []"
  by (auto simp: home_cases)

lemma home_error:
  "home w = (dir, Some err) \<Longrightarrow> dir = [] \<and> HomeDirUnavailable err"
  by (auto simp: home_def split: sum.splits if_splits)

lemma expandHomeDir_sep:
  "home w = (dir, None) \<Longrightarrow>
   expandHomeDir w (CHR ''~'' # CHR ''/'' # rest) = (filepath_Clean (dir @ CHR ''/'' # rest), None)"
  using home_not_Nil [of w dir] by (simp add: expandHomeDir_def Clean_double_sep)

lemma expandHomeDir_marker:
  "home w = (dir, None) \<Longrightarrow> expandHomeDir w ''~'' = (filepath_Clean dir, None)"
  using home_not_Nil [of w dir] by (simp add: expandHomeDir_def Clean_trailing_sep)

lemma join_sep_snoc:
  "join_sep (xs @ [y]) = (if xs = [] then y else join_sep xs @ CHR ''/'' # y)"
  by (induction xs rule: join_sep.induct) simp_all

lemma join_sep_snoc2:
  "join_sep (xs @ [y, z]) = (if xs = [] then [] else join_sep xs @ ''/'') @ y @ CHR ''/'' # z"
  using join_sep_snoc [of "xs @ [y]" z] join_sep_snoc [of xs y] by simp

lemma config_dirs_shape:
  assumes h: "home w = (dir, None)"
  shows "\<exists>P. fst (expandHomeDir w WtfConfigDirV1) = P @ ''.wtf''
           \<and> fst (expandHomeDir w WtfConfigDirV2) = P @ ''.config/wtf''"
proof -
  from h have ne: "dir \<noteq> []" by (rule home_not_Nil)
  define rooted where "rooted = (hd dir = CHR ''/'')"
  define out where "out = foldl (clean_step rooted) [] (elements dir)"
  define P where "P = (if rooted then ''/'' else []) @ (if out = [] then [] else join_sep (rev out) @ ''/'')"
  have e1: "elements (dir @ ''/.wtf/'') = elements dir @ [''.wtf'']"
    using elements_append [of dir "''.wtf/''"] by (simp add: elements_def is_element_def)
  have e2: "elements (dir @ ''/.config/wtf/'') = elements dir @ [''.config'', ''wtf'']"
    using elements_append [of dir "''.config/wtf/''"] by (simp add: elements_def is_element_def)
  have c1: "filepath_Clean (dir @ ''/.wtf/'') = P @ ''.wtf''"
    using ne by (simp add: filepath_Clean_def e1 clean_step_def join_sep_snoc P_def out_def rooted_def)
  have c2: "filepath_Clean (dir @ ''/.config/wtf/'') = P @ ''.config/wtf''"
    using ne by (simp add: filepath_Clean_def e2 clean_step_def join_sep_snoc2 P_def out_def rooted_def)
  have "expandHomeDir w WtfConfigDirV1 = (P @ ''.wtf'', None)"
    using expandHomeDir_sep [OF h, of "''.wtf/''"] c1 by (simp add: WtfConfigDirV1_def)
  moreover have "expandHomeDir w WtfConfigDirV2 = (P @ ''.config/wtf'', None)"
    using expandHomeDir_sep [OF h, of "''.config/wtf/''"] c2 by (simp add: WtfConfigDirV2_def)
  ultimately show ?thesis by auto
qed

lemma rel_path_under: "rel_path d (d @ CHR ''/'' # r) = Some (CHR ''/'' # r)"
  by (simp add: rel_path_def)

lemma rel_path_self: "rel_path d d = Some []"
  by (simp add: rel_path_def)

lemma rel_path_apart: "rel_path (P @ ''.wtf'') (P @ ''.config/wtf'' @ x) = None"
  by (simp add: rel_path_def)

lemma expandHomeDir_Nil:
  "fst (expandHomeDir w (CHR ''~'' # CHR ''/'' # rest)) \<noteq> [] \<Longrightarrow> \<exists>dir. home w = (dir, None)"
  by (auto simp: expandHomeDir_def split: prod.splits option.splits)


lemma expand_u:
  assumes "user_Current w = Inr \<lparr>HomeDir = ''/home/u''\<rparr>"
  shows "expandHomeDir w XdgConfigDir = (''/home/u/.config'', None)"
    and "expandHomeDir w WtfConfigDirV1 = (''/home/u/.wtf'', None)"
    and "expandHomeDir w WtfConfigDirV2 = (''/home/u/.config/wtf'', None)"
    and "WtfConfigDir w = (''/home/u/.config/wtf'', None)"
  using assms
  by (simp_all add: WtfConfigDir_def expandHomeDir_def home_def XdgConfigDir_def WtfConfigDirV1_def
      WtfConfigDirV2_def filepath_Clean_def elements_def is_element_def clean_step_def)

lemma expand_nohome:
  assumes "user_Current w = Inl m"
  shows "expandHomeDir w XdgConfigDir = ([], Some (UserCurrentError m))"
    and "WtfConfigDir w = ([], Some (UserCurrentError m))"
  using assms
  by (simp_all add: WtfConfigDir_def expandHomeDir_def home_def XdgConfigDir_def WtfConfigDirV2_def)

section \<open>Lemmas on the file-system calls\<close>

lemma os_Stat_Inr:
  "os_Stat w p = Inr info \<Longrightarrow> p \<noteq> [] \<and> stat_fault w p = None \<and> files w p \<noteq> None"
  by (auto simp: os_Stat_def split: if_splits option.splits node.splits)

lemma os_Stat_NotExist:
  "os_Stat w p = Inl ErrNotExist \<Longrightarrow> p = [] \<or> (stat_fault w p = None \<and> files w p = None)"
  by (auto simp: os_Stat_def split: if_splits option.splits node.splits)

lemma os_Stat_size:
  "os_Stat w p = Inr info \<Longrightarrow> files w p = Some (File b) \<Longrightarrow> Size info = length b"
  by (auto simp: os_Stat_def split: if_splits option.splits)

lemma os_Stat_IsDir:
  "os_Stat w p = Inr info \<Longrightarrow> IsDir info \<Longrightarrow> files w p = Some Dir"
  by (auto simp: os_Stat_def split: if_splits option.splits node.splits)

section \<open>Properties of path resolution\<close>

text \<open>
  C3. An input that is empty or does not begin with the home marker \<open>~\<close> resolves
  successfully to itself.
\<close>

theorem expandHomeDir_unmarked:
  "path = [] \<or> hd path \<noteq> CHR ''~'' \<Longrightarrow> expandHomeDir w path = (path, None)"
  by (cases path) (simp_all add: expandHomeDir_def)

theorem expandHomeDir_unmarked_witness:
  "(''/etc/wtf'' = [] \<or> hd ''/etc/wtf'' \<noteq> CHR ''~'')
   \<and> expandHomeDir world0 ''/etc/wtf'' = (''/etc/wtf'', None)
   \<and> expandHomeDir world0 [] = ([], None)"
  using expandHomeDir_unmarked [of "''/etc/wtf''" world0]
    expandHomeDir_unmarked [of "[]" world0]
  by simp

text \<open>
  C4. An input that begins with the home marker and continues with a character that is
  not a separator fails with \<open>MalformedPath\<close> and returns the empty string as its path.
  The separators of the test in \<open>expandHomeDir\<close> are \<open>/\<close> and the backslash.
\<close>

theorem expandHomeDir_malformed:
  "c \<noteq> CHR ''/'' \<Longrightarrow> c \<noteq> CHR 0x5C \<Longrightarrow>
   expandHomeDir w (CHR ''~'' # c # rest) = ([], Some MalformedPath)"
  by (simp add: expandHomeDir_def MalformedPath_def)

theorem expandHomeDir_malformed_witness:
  "CHR ''u'' \<noteq> CHR ''/'' \<and> CHR ''u'' \<noteq> CHR 0x5C
   \<and> expandHomeDir world0 ''~user/.wtf'' = ([], Some MalformedPath)"
  using expandHomeDir_malformed [of "CHR ''u''" world0 "''ser/.wtf''"] by simp

text \<open>
  C5, as the code has it. For an input \<open>~/rest\<close> and a user with a non-empty home
  directory, resolution returns \<open>filepath.Clean\<close> of the home directory followed by
  \<open>/rest\<close>; for the marker alone it returns \<open>filepath.Clean\<close> of the home
  directory. When the user cannot be looked up or the home directory is empty,
  resolution of either input fails with \<open>HomeDirUnavailable\<close> and returns the empty
  string.
\<close>

theorem expandHomeDir_home:
  "(user_Current w = Inr u \<and> HomeDir u \<noteq> [] \<longrightarrow>
      expandHomeDir w (CHR ''~'' # CHR ''/'' # rest)
        = (filepath_Clean (HomeDir u @ CHR ''/'' # rest), None)
      \<and> expandHomeDir w ''~'' = (filepath_Clean (HomeDir u), None))
   \<and> ((\<exists>m. user_Current w = Inl m) \<or> (\<exists>u. user_Current w = Inr u \<and> HomeDir u = []) \<longrightarrow>
      (\<exists>err. HomeDirUnavailable err
        \<and> expandHomeDir w (CHR ''~'' # CHR ''/'' # rest) = ([], Some err)
        \<and> expandHomeDir w ''~'' = ([], Some err)))"
proof (intro conjI impI)
  assume "user_Current w = Inr u \<and> HomeDir u \<noteq> []"
  then have h: "home w = (HomeDir u, None)" by (simp add: home_cases)
  show "expandHomeDir w (CHR ''~'' # CHR ''/'' # rest)
        = (filepath_Clean (HomeDir u @ CHR ''/'' # rest), None)"
    by (rule expandHomeDir_sep [OF h])
  show "expandHomeDir w ''~'' = (filepath_Clean (HomeDir u), None)"
    by (rule expandHomeDir_marker [OF h])
next
  assume "(\<exists>m. user_Current w = Inl m) \<or> (\<exists>u. user_Current w = Inr u \<and> HomeDir u = [])"
  then obtain err where h: "home w = ([], Some err)"
    by (auto simp: home_def)
  then have "HomeDirUnavailable err" by (simp add: home_error)
  moreover have "expandHomeDir w (CHR ''~'' # CHR ''/'' # rest) = ([], Some err)"
    using h by (simp add: expandHomeDir_def)
  moreover have "expandHomeDir w ''~'' = ([], Some err)"
    using h by (simp add: expandHomeDir_def)
  ultimately show "\<exists>err. HomeDirUnavailable err
        \<and> expandHomeDir w (CHR ''~'' # CHR ''/'' # rest) = ([], Some err)
        \<and> expandHomeDir w ''~'' = ([], Some err)" by blast
qed

theorem expandHomeDir_home_witness:
  "user_Current world0 = Inr \<lparr>HomeDir = ''/home/u''\<rparr>
   \<and> expandHomeDir world0 ''~/.wtf'' = (''/home/u'' @ ''/.wtf'', None)
   \<and> expandHomeDir world0 ''~/.config/wtf/'' = (''/home/u/.config/wtf'', None)
   \<and> expandHomeDir world0 ''~'' = (''/home/u'', None)
   \<and> user_Current world_nohome = Inl ''user: unknown userid 1000''
   \<and> expandHomeDir world_nohome ''~/.config/wtf/''
       = ([], Some (UserCurrentError ''user: unknown userid 1000''))
   \<and> expandHomeDir world_nohome ''~''
       = ([], Some (UserCurrentError ''user: unknown userid 1000''))"
proof -
  have u: "user_Current world0 = Inr \<lparr>HomeDir = ''/home/u''\<rparr>"
    by (simp add: world0_def)
  have n: "user_Current world_nohome = Inl ''user: unknown userid 1000''"
    by (simp add: world_nohome_def)
  have c1: "filepath_Clean ''/home/u/.config/wtf/'' = ''/home/u/.config/wtf''"
    by (simp add: filepath_Clean_def elements_def is_element_def clean_step_def)
  have c2: "filepath_Clean ''/home/u'' = ''/home/u''"
    by (simp add: filepath_Clean_def elements_def is_element_def clean_step_def)
  from expandHomeDir_home [of world0 "\<lparr>HomeDir = ''/home/u''\<rparr>" "''.config/wtf/''"] u
  have a: "expandHomeDir world0 ''~/.config/wtf/'' = (''/home/u/.config/wtf'', None)
      \<and> expandHomeDir world0 ''~'' = (''/home/u'', None)"
    by (simp add: c1 c2)
  have c3: "filepath_Clean ''/home/u/.wtf'' = ''/home/u/.wtf''"
    by (simp add: filepath_Clean_def elements_def is_element_def clean_step_def)
  from expandHomeDir_home [of world0 "\<lparr>HomeDir = ''/home/u''\<rparr>" "''.wtf''"] u
  have a': "expandHomeDir world0 ''~/.wtf'' = (''/home/u'' @ ''/.wtf'', None)"
    by (simp add: c3)
  from expandHomeDir_home [of world_nohome "\<lparr>HomeDir = []\<rparr>" "''.config/wtf/''"] n
  obtain err where e: "expandHomeDir world_nohome ''~/.config/wtf/'' = ([], Some err)"
      "expandHomeDir world_nohome ''~'' = ([], Some err)"
    by auto
  have "expandHomeDir world_nohome ''~'' = ([], Some (UserCurrentError ''user: unknown userid 1000''))"
    by (simp add: expandHomeDir_def home_def world_nohome_def)
  with e have "err = UserCurrentError ''user: unknown userid 1000''" by simp
  with e a a' u n show ?thesis by simp
qed

text \<open>
  The claim C5 as the specification words it, that the result is the home directory
  followed by the remainder, fails at the package's own \<open>XdgConfigDir\<close>, where the
  trailing separator is dropped; and the marker alone does not resolve to the home
  directory itself when that is recorded with a trailing separator.
\<close>

theorem expandHomeDir_concat_counterexample:
  "user_Current world0 = Inr \<lparr>HomeDir = ''/home/u''\<rparr>
   \<and> expandHomeDir world0 (''~'' @ ''/.config/'') = (''/home/u/.config'', None)
   \<and> expandHomeDir world0 (''~'' @ ''/.config/'') \<noteq> (''/home/u'' @ ''/.config/'', None)
   \<and> user_Current world_slash = Inr \<lparr>HomeDir = ''/home/u/''\<rparr>
   \<and> expandHomeDir world_slash ''~'' = (''/home/u'', None)
   \<and> expandHomeDir world_slash ''~'' \<noteq> (''/home/u/'', None)"
  by (simp add: expandHomeDir_def home_def worlds filepath_Clean_def elements_def
      is_element_def clean_step_def)



section \<open>Migration\<close>

text \<open>
  C1. When the current configuration directory exists, that is, when \<open>os.Stat\<close> of it
  reports no error, running \<open>migrateOldConfig\<close> returns and leaves the whole world
  as it was: the legacy tree, the current tree and everything else, whether or not the
  legacy directory exists too.
\<close>

theorem migrateOldConfig_skip:
  "os_Stat w (CurrentDirectory w) = Inr info \<Longrightarrow> migrateOldConfig w = Returned w"
  by (simp add: migrateOldConfig_def CurrentDirectory_def Let_def)

theorem migrateOldConfig_skip_witness:
  "os_Stat world_both (LegacyDirectory world_both) = Inr \<lparr>Size = 4096, IsDir = True\<rparr>
   \<and> os_Stat world_both (CurrentDirectory world_both) = Inr \<lparr>Size = 4096, IsDir = True\<rparr>
   \<and> migrateOldConfig world_both = Returned world_both"
proof -
  have u: "user_Current world_both = Inr \<lparr>HomeDir = ''/home/u''\<rparr>" by (simp add: worlds)
  have l: "os_Stat world_both (LegacyDirectory world_both) = Inr \<lparr>Size = 4096, IsDir = True\<rparr>"
    by (simp add: LegacyDirectory_def expand_u [OF u] os_Stat_def) (simp add: worlds)
  have s: "os_Stat world_both (CurrentDirectory world_both) = Inr \<lparr>Size = 4096, IsDir = True\<rparr>"
    by (simp add: CurrentDirectory_def expand_u [OF u] os_Stat_def) (simp add: worlds)
  from migrateOldConfig_skip [OF s] l s show ?thesis by simp
qed

text \<open>
  C2, as the code has it. When the legacy directory exists, the current directory does
  not exist and no failure interrupts the recursive copy, \<open>migrateOldConfig\<close> returns;
  every node that was under the legacy directory, a file with its bytes in particular,
  is then under the current directory at the same relative path; and either nothing is
  left at or under the legacy directory, or the removal failed and its error was
  printed.
\<close>

theorem migrateOldConfig_migrates:
  assumes legacy: "os_Stat w (LegacyDirectory w) = Inr info" "IsDir info"
    and current: "os_Stat w (CurrentDirectory w) = Inl ErrNotExist"
    and nofault: "copy_fault w (LegacyDirectory w) (CurrentDirectory w) = None"
  shows "\<exists>w'. migrateOldConfig w = Returned w'
    \<and> (\<forall>r n. files w (LegacyDirectory w @ CHR ''/'' # r) = Some n
          \<longrightarrow> files w' (CurrentDirectory w @ CHR ''/'' # r) = Some n)
    \<and> (case remove_fault w (LegacyDirectory w) of
          None \<Rightarrow> (\<forall>k. rel_path (LegacyDirectory w) k \<noteq> None \<longrightarrow> files w' k = None)
                    \<and> stdout w' = stdout w
        | Some (m, gone) \<Rightarrow> stdout w' = stdout w @ [Println (SyscallError m)])"
proof -
  let ?src = "LegacyDirectory w" and ?dst = "CurrentDirectory w"
  have src_ne: "?src \<noteq> []" using os_Stat_Inr [OF legacy(1)] by simp
  then obtain dir where h: "home w = (dir, None)"
    using expandHomeDir_Nil [of w "''.wtf/''"] by (auto simp: LegacyDirectory_def WtfConfigDirV1_def)
  from config_dirs_shape [OF h] obtain P where
    src: "?src = P @ ''.wtf''" and dst: "?dst = P @ ''.config/wtf''"
    by (auto simp: LegacyDirectory_def CurrentDirectory_def)
  have dst_ne: "?dst \<noteq> []" by (simp add: dst)
  have src_dir: "files w ?src = Some Dir" by (rule os_Stat_IsDir [OF legacy])
  from os_Stat_NotExist [OF current] dst_ne
  have dst_free: "stat_fault w ?dst = None" "files w ?dst = None" by simp_all
  define w1 where "w1 = w\<lparr>files := copy_entries (files w) ?src ?dst (\<lambda>r. True)\<rparr>"
  have copy: "Copy w ?src ?dst = (w1, None)"
    using legacy nofault by (simp add: Copy_def w1_def)
  have f1_dst: "files w1 ?dst = Some Dir"
    by (simp add: w1_def copy_entries_def rel_path_self src_dir)
  have f1_under: "files w1 (?dst @ CHR ''/'' # r) = Some n"
    if "files w (?src @ CHR ''/'' # r) = Some n" for r n
    using that by (simp add: w1_def copy_entries_def rel_path_under)
  have stat1: "err_of (os_Stat w1 ?dst) = None"
    using dst_ne dst_free(1) f1_dst by (simp add: os_Stat_def w1_def)
  have not_legacy: "\<not> os_IsNotExist (err_of (os_Stat w ?src))"
    using legacy by (simp add: os_IsNotExist_def)
  have not_current: "err_of (os_Stat w ?dst) = Some ErrNotExist"
    using current by simp
  have apart: "rel_path ?src (?dst @ CHR ''/'' # r) = None" for r
    using rel_path_apart [of P "CHR ''/'' # r"] by (simp add: src dst)
  show ?thesis
  proof (cases "remove_fault w ?src")
    case None
    define w2 where "w2 = w1\<lparr>files := remove_entries (files w1) ?src (\<lambda>r. True)\<rparr>"
    have rm: "os_RemoveAll w1 ?src = (w2, None)"
      using src_ne None by (simp add: os_RemoveAll_def w2_def w1_def)
    have res: "migrateOldConfig w = Returned w2"
      using not_legacy not_current copy stat1 rm
      by (simp add: migrateOldConfig_def Let_def LegacyDirectory_def CurrentDirectory_def)
    have a: "files w2 (?dst @ CHR ''/'' # r) = Some n"
      if "files w (?src @ CHR ''/'' # r) = Some n" for r n
      using f1_under [OF that] by (simp add: w2_def remove_entries_def apart)
    have b: "files w2 k = None" if "rel_path ?src k \<noteq> None" for k
      using that by (auto simp: w2_def remove_entries_def)
    have c: "stdout w2 = stdout w" by (simp add: w2_def w1_def)
    from res a b c None show ?thesis by simp
  next
    case (Some mg)
    obtain m gone where mg: "mg = (m, gone)" by (cases mg)
    define w2 where "w2 = w1\<lparr>files := remove_entries (files w1) ?src gone\<rparr>"
    have rm: "os_RemoveAll w1 ?src = (w2, Some (SyscallError m))"
      using src_ne Some mg by (simp add: os_RemoveAll_def w2_def w1_def)
    have res: "migrateOldConfig w = Returned (print (Println (SyscallError m)) w2)"
      using not_legacy not_current copy stat1 rm
      by (simp add: migrateOldConfig_def Let_def LegacyDirectory_def CurrentDirectory_def)
    have a: "files (print (Println (SyscallError m)) w2) (?dst @ CHR ''/'' # r) = Some n"
      if "files w (?src @ CHR ''/'' # r) = Some n" for r n
      using f1_under [OF that] by (simp add: w2_def remove_entries_def apart print_def)
    have c: "stdout (print (Println (SyscallError m)) w2) = stdout w @ [Println (SyscallError m)]"
      by (simp add: w2_def w1_def print_def)
    from res a c Some mg show ?thesis by simp
  qed
qed

lemma u_legacy: "user_Current world_legacy = Inr \<lparr>HomeDir = ''/home/u''\<rparr>"
  by (simp add: worlds)

theorem migrateOldConfig_migrates_witness:
  "os_Stat world_legacy (LegacyDirectory world_legacy) = Inr \<lparr>Size = 4096, IsDir = True\<rparr>
   \<and> os_Stat world_legacy (CurrentDirectory world_legacy) = Inl ErrNotExist
   \<and> files world_legacy ''/home/u/.wtf/settings.txt'' = Some (File ''abc'')
   \<and> migrateOldConfig world_legacy = Returned (final (migrateOldConfig world_legacy))
   \<and> files (final (migrateOldConfig world_legacy)) ''/home/u/.config/wtf/settings.txt''
       = Some (File ''abc'')
   \<and> files (final (migrateOldConfig world_legacy)) ''/home/u/.wtf'' = None
   \<and> files (final (migrateOldConfig world_legacy)) ''/home/u/.wtf/settings.txt'' = None
   \<and> stdout (final (migrateOldConfig world_legacy)) = []"
proof -
  have src: "LegacyDirectory world_legacy = ''/home/u/.wtf''"
    and dst: "CurrentDirectory world_legacy = ''/home/u/.config/wtf''"
    by (simp_all add: LegacyDirectory_def CurrentDirectory_def expand_u [OF u_legacy])
  have l: "os_Stat world_legacy (LegacyDirectory world_legacy) = Inr \<lparr>Size = 4096, IsDir = True\<rparr>"
    by (simp add: src os_Stat_def) (simp add: worlds)
  have d: "IsDir \<lparr>Size = 4096, IsDir = True\<rparr>" by simp
  have c: "os_Stat world_legacy (CurrentDirectory world_legacy) = Inl ErrNotExist"
    by (simp add: dst os_Stat_def) (simp add: worlds)
  have nf: "copy_fault world_legacy (LegacyDirectory world_legacy) (CurrentDirectory world_legacy) = None"
    and nr: "remove_fault world_legacy (LegacyDirectory world_legacy) = None"
    by (simp_all add: worlds)
  have f: "files world_legacy (LegacyDirectory world_legacy @ CHR ''/'' # ''settings.txt'') = Some (File ''abc'')"
    by (simp add: src) (simp add: worlds)
  have r1: "rel_path (LegacyDirectory world_legacy) ''/home/u/.wtf'' \<noteq> None"
    and r2: "rel_path (LegacyDirectory world_legacy) ''/home/u/.wtf/settings.txt'' \<noteq> None"
    by (simp_all add: src rel_path_def)
  have o: "stdout world_legacy = []" by (simp add: worlds)
  from migrateOldConfig_migrates [OF l d c nf] obtain w' where
    res: "migrateOldConfig world_legacy = Returned w'"
    and cp: "\<forall>r n. files world_legacy (LegacyDirectory world_legacy @ CHR ''/'' # r) = Some n
          \<longrightarrow> files w' (CurrentDirectory world_legacy @ CHR ''/'' # r) = Some n"
    and rm: "(\<forall>k. rel_path (LegacyDirectory world_legacy) k \<noteq> None \<longrightarrow> files w' k = None)
          \<and> stdout w' = stdout world_legacy"
    by (auto simp: nr)
  from cp f have "files w' (CurrentDirectory world_legacy @ CHR ''/'' # ''settings.txt'') = Some (File ''abc'')"
    by blast
  then have g: "files w' ''/home/u/.config/wtf/settings.txt'' = Some (File ''abc'')"
    by (simp add: dst)
  from rm r1 r2 have h: "files w' ''/home/u/.wtf'' = None" "files w' ''/home/u/.wtf/settings.txt'' = None"
    by blast+
  from l c f res g h rm o show ?thesis
    by (simp add: src dst)
qed

text \<open>
  The claim C2 as the specification words it, with a failed cleanup as the only
  exception, fails where the recursive copy fails: \<open>migrateOldConfig\<close> panics with
  the error of the copy, the file of the legacy directory is not in the current
  directory, the legacy directory is still there, and nothing has been printed.
\<close>

theorem migrateOldConfig_copy_failure_counterexample:
  "os_Stat world_copy_fails (LegacyDirectory world_copy_fails)
       = Inr \<lparr>Size = 4096, IsDir = True\<rparr>
   \<and> os_Stat world_copy_fails (CurrentDirectory world_copy_fails) = Inl ErrNotExist
   \<and> files world_copy_fails ''/home/u/.wtf/settings.txt'' = Some (File ''abc'')
   \<and> migrateOldConfig world_copy_fails
       = Panicked (PanicError (Some (SyscallError ''input/output error'')))
           (final (migrateOldConfig world_copy_fails))
   \<and> files (final (migrateOldConfig world_copy_fails)) ''/home/u/.config/wtf'' = Some Dir
   \<and> files (final (migrateOldConfig world_copy_fails)) ''/home/u/.config/wtf/settings.txt''
       = None
   \<and> files (final (migrateOldConfig world_copy_fails)) ''/home/u/.wtf'' = Some Dir
   \<and> files (final (migrateOldConfig world_copy_fails)) ''/home/u/.wtf/settings.txt''
       = Some (File ''abc'')
   \<and> stdout (final (migrateOldConfig world_copy_fails)) = []"
proof -
  let ?w = world_copy_fails
  let ?w1 = "?w\<lparr>files := copy_entries (files ?w) ''/home/u/.wtf'' ''/home/u/.config/wtf''
                (\<lambda>r. r = [])\<rparr>"
  have u: "user_Current ?w = Inr \<lparr>HomeDir = ''/home/u''\<rparr>" by (simp add: worlds)
  have src: "LegacyDirectory ?w = ''/home/u/.wtf''"
    and dst: "CurrentDirectory ?w = ''/home/u/.config/wtf''"
    by (simp_all add: LegacyDirectory_def CurrentDirectory_def expand_u [OF u])
  have l: "os_Stat ?w ''/home/u/.wtf'' = Inr \<lparr>Size = 4096, IsDir = True\<rparr>"
    by (simp add: os_Stat_def) (simp add: worlds)
  have c: "os_Stat ?w ''/home/u/.config/wtf'' = Inl ErrNotExist"
    by (simp add: os_Stat_def) (simp add: worlds)
  have f: "files ?w ''/home/u/.wtf/settings.txt'' = Some (File ''abc'')"
    "files ?w ''/home/u/.wtf'' = Some Dir"
    "files ?w ''/home/u/.config/wtf'' = None"
    "files ?w ''/home/u/.config/wtf/settings.txt'' = None"
    "stdout ?w = []"
    "copy_fault ?w ''/home/u/.wtf'' ''/home/u/.config/wtf''
       = Some (''input/output error'', (\<lambda>r. r = []))"
    by (simp_all add: worlds)
  have cp: "Copy ?w ''/home/u/.wtf'' ''/home/u/.config/wtf''
      = (?w1, Some (SyscallError ''input/output error''))"
    by (simp add: Copy_def l f)
  have res: "migrateOldConfig ?w
      = Panicked (PanicError (Some (SyscallError ''input/output error''))) ?w1"
    by (simp add: migrateOldConfig_def Let_def expand_u [OF u] l c cp os_IsNotExist_def)
  have g: "files ?w1 ''/home/u/.config/wtf'' = Some Dir"
    "files ?w1 ''/home/u/.config/wtf/settings.txt'' = None"
    "files ?w1 ''/home/u/.wtf'' = Some Dir"
    "files ?w1 ''/home/u/.wtf/settings.txt'' = Some (File ''abc'')"
    "stdout ?w1 = []"
    by (simp_all add: copy_entries_def rel_path_def f)
  from l c f res g show ?thesis by (simp add: src dst)
qed

section \<open>Directory provisioning\<close>

text \<open>
  C6, as the code has it. When resolution of the directory's path fails,
  \<open>createXdgConfigDir\<close> and \<open>createWtfConfigDir\<close> discard the error and go on with
  the empty string that the failed resolution returns: \<open>os.Stat\<close> of it reports that
  nothing exists, \<open>os.Mkdir\<close> of it fails, and the procedure prints that error and
  exits with status 1, leaving the file system as it was.
\<close>

theorem provisioning_resolution_failure:
  "(snd (expandHomeDir w XdgConfigDir) \<noteq> None \<longrightarrow>
      fst (expandHomeDir w XdgConfigDir) = []
      \<and> createXdgConfigDir w = Exited 1 (print (XdgConfigDirCreateError ErrNotExist) w))
   \<and> (snd (WtfConfigDir w) \<noteq> None \<longrightarrow>
      fst (WtfConfigDir w) = []
      \<and> createWtfConfigDir w = Exited 1 (print (WtfConfigDirCreateError ErrNotExist) w))"
proof (intro conjI impI)
  assume a: "snd (expandHomeDir w XdgConfigDir) \<noteq> None"
  then show x: "fst (expandHomeDir w XdgConfigDir) = []"
    by (auto simp: expandHomeDir_def XdgConfigDir_def split: prod.splits option.splits)
  show "createXdgConfigDir w = Exited 1 (print (XdgConfigDirCreateError ErrNotExist) w)"
    by (simp add: createXdgConfigDir_def x os_Stat_def os_Mkdir_def os_IsNotExist_def)
next
  assume a: "snd (WtfConfigDir w) \<noteq> None"
  then show x: "fst (WtfConfigDir w) = []"
    by (auto simp: WtfConfigDir_def split: prod.splits option.splits)
  show "createWtfConfigDir w = Exited 1 (print (WtfConfigDirCreateError ErrNotExist) w)"
    by (simp add: createWtfConfigDir_def x os_Stat_def os_Mkdir_def os_IsNotExist_def)
qed

theorem provisioning_resolution_failure_witness:
  "snd (expandHomeDir world_nohome XdgConfigDir) \<noteq> None
   \<and> snd (WtfConfigDir world_nohome) \<noteq> None
   \<and> createXdgConfigDir world_nohome
       = Exited 1 (print (XdgConfigDirCreateError ErrNotExist) world_nohome)
   \<and> createWtfConfigDir world_nohome
       = Exited 1 (print (WtfConfigDirCreateError ErrNotExist) world_nohome)"
proof -
  have n: "user_Current world_nohome = Inl ''user: unknown userid 1000''"
    by (simp add: worlds)
  have a: "snd (expandHomeDir world_nohome XdgConfigDir) \<noteq> None"
    and b: "snd (WtfConfigDir world_nohome) \<noteq> None"
    by (simp_all add: expand_nohome [OF n])
  with provisioning_resolution_failure [of world_nohome] show ?thesis by simp
qed

text \<open>
  The claim C6 as the specification words it, that provisioning goes on with the path
  as it was given, fails for a process whose user cannot be looked up and whose working
  directory holds \<open>~/.config/\<close>: the specification's reading finds that directory and
  returns, the code does not look at it and exits.
\<close>

theorem provisioning_as_given_counterexample:
  "snd (expandHomeDir world_tilde XdgConfigDir) \<noteq> None
   \<and> files world_tilde XdgConfigDir = Some Dir
   \<and> spec_ensure_directory XdgConfigDirCreateError XdgConfigDir world_tilde = Returned world_tilde
   \<and> createXdgConfigDir world_tilde
       = Exited 1 (print (XdgConfigDirCreateError ErrNotExist) world_tilde)"
proof -
  have n: "user_Current world_tilde = Inl ''user: unknown userid 1000''"
    by (simp add: worlds)
  have f: "files world_tilde XdgConfigDir = Some Dir"
    by (simp add: worlds XdgConfigDir_def)
  have a: "createXdgConfigDir world_tilde
       = Exited 1 (print (XdgConfigDirCreateError ErrNotExist) world_tilde)"
    by (simp add: createXdgConfigDir_def expand_nohome [OF n] os_Stat_def os_Mkdir_def
        os_IsNotExist_def)
  have b: "spec_ensure_directory XdgConfigDirCreateError XdgConfigDir world_tilde
       = Returned world_tilde"
    by (simp add: spec_ensure_directory_def expand_nohome [OF n] os_Stat_def os_IsNotExist_def f)
      (simp add: worlds XdgConfigDir_def)
  from a b f show ?thesis by (simp add: expand_nohome [OF n])
qed

lemma expandHomeDir_cong:
  "user_Current w1 = user_Current w \<Longrightarrow> expandHomeDir w1 p = expandHomeDir w p"
  by (simp add: expandHomeDir_def home_def)

lemma os_Mkdir_ok:
  "os_Mkdir w p = (w1, None) \<Longrightarrow>
   p \<noteq> [] \<and> w1 = w\<lparr>files := (files w)(p \<mapsto> Dir)\<rparr>"
  by (auto simp: os_Mkdir_def split: if_splits option.splits)

lemma mkdir_then_stat:
  assumes "os_IsNotExist (err_of (os_Stat w p))" "os_Mkdir w p = (w1, None)"
  shows "\<not> os_IsNotExist (err_of (os_Stat w1 p))"
proof -
  from os_Mkdir_ok [OF assms(2)] have p: "p \<noteq> []" and w1: "w1 = w\<lparr>files := (files w)(p \<mapsto> Dir)\<rparr>"
    by simp_all
  from assms(1) have "os_Stat w p = Inl ErrNotExist"
    by (cases "os_Stat w p") (simp_all add: os_IsNotExist_def)
  with os_Stat_NotExist [of w p] p have "stat_fault w p = None" by simp
  with p w1 show ?thesis by (simp add: os_Stat_def os_IsNotExist_def)
qed

lemma os_Mkdir_user: "os_Mkdir w p = (w1, e) \<Longrightarrow> user_Current w1 = user_Current w"
  by (auto simp: os_Mkdir_def split: if_splits option.splits)

lemma createXdgConfigDir_twice:
  assumes "createXdgConfigDir w = Returned w'"
  shows "createXdgConfigDir w' = Returned w'"
proof -
  let ?p = "fst (expandHomeDir w XdgConfigDir)"
  show ?thesis
  proof (cases "os_IsNotExist (err_of (os_Stat w ?p))")
    case False
    with assms have "w' = w" by (simp add: createXdgConfigDir_def Let_def)
    with False show ?thesis by (simp add: createXdgConfigDir_def Let_def)
  next
    case True
    obtain w1 e where mk: "os_Mkdir w ?p = (w1, e)" by (cases "os_Mkdir w ?p")
    with assms True have e: "e = None" and w': "w' = w1"
      by (cases e; simp add: createXdgConfigDir_def Let_def)+
    from os_Mkdir_user [OF mk] have eq: "expandHomeDir w1 XdgConfigDir = expandHomeDir w XdgConfigDir"
      by (rule expandHomeDir_cong)
    from mkdir_then_stat [OF True] mk e
    have "\<not> os_IsNotExist (err_of (os_Stat w1 ?p))" by simp
    then have "createXdgConfigDir w1 = Returned w1"
      unfolding createXdgConfigDir_def Let_def eq by simp
    then show ?thesis by (simp only: w')
  qed
qed

lemma createWtfConfigDir_twice:
  assumes "createWtfConfigDir w = Returned w'"
  shows "createWtfConfigDir w' = Returned w'"
proof -
  let ?p = "fst (WtfConfigDir w)"
  show ?thesis
  proof (cases "os_IsNotExist (err_of (os_Stat w ?p))")
    case False
    with assms have "w' = w" by (simp add: createWtfConfigDir_def Let_def)
    with False show ?thesis by (simp add: createWtfConfigDir_def Let_def)
  next
    case True
    obtain w1 e where mk: "os_Mkdir w ?p = (w1, e)" by (cases "os_Mkdir w ?p")
    with assms True have e: "e = None" and w': "w' = w1"
      by (cases e; simp add: createWtfConfigDir_def Let_def)+
    have eq: "WtfConfigDir w1 = WtfConfigDir w"
      using expandHomeDir_cong [OF os_Mkdir_user [OF mk], of WtfConfigDirV2]
      by (simp add: WtfConfigDir_def)
    from mkdir_then_stat [OF True] mk e
    have "\<not> os_IsNotExist (err_of (os_Stat w1 ?p))" by simp
    then have "createWtfConfigDir w1 = Returned w1"
      unfolding createWtfConfigDir_def Let_def eq by simp
    then show ?thesis by (simp only: w')
  qed
qed

text \<open>
  C8. Directory provisioning is idempotent: when \<open>createXdgConfigDir\<close> (or
  \<open>createWtfConfigDir\<close>) has returned, a second call in the world it left returns with
  that world unchanged; whenever \<open>os.Stat\<close> finds something at the directory's path,
  of whatever type, the call returns with the world unchanged; and two calls in
  succession end as one call does, also when the first one ends the process.
\<close>

theorem directory_ensure_idempotent:
  "(createXdgConfigDir w = Returned w' \<longrightarrow> createXdgConfigDir w' = Returned w')
   \<and> (createWtfConfigDir v = Returned v' \<longrightarrow> createWtfConfigDir v' = Returned v')
   \<and> (os_Stat x (fst (expandHomeDir x XdgConfigDir)) = Inr xi \<longrightarrow> createXdgConfigDir x = Returned x)
   \<and> (os_Stat y (fst (WtfConfigDir y)) = Inr yi \<longrightarrow> createWtfConfigDir y = Returned y)
   \<and> and_then (createXdgConfigDir w) createXdgConfigDir = createXdgConfigDir w
   \<and> and_then (createWtfConfigDir v) createWtfConfigDir = createWtfConfigDir v"
proof (intro conjI impI)
  show "and_then (createXdgConfigDir w) createXdgConfigDir = createXdgConfigDir w"
    by (cases "createXdgConfigDir w") (simp_all add: createXdgConfigDir_twice)
next
  show "and_then (createWtfConfigDir v) createWtfConfigDir = createWtfConfigDir v"
    by (cases "createWtfConfigDir v") (simp_all add: createWtfConfigDir_twice)
next
  assume "createXdgConfigDir w = Returned w'"
  then show "createXdgConfigDir w' = Returned w'" by (rule createXdgConfigDir_twice)
next
  assume "createWtfConfigDir v = Returned v'"
  then show "createWtfConfigDir v' = Returned v'" by (rule createWtfConfigDir_twice)
next
  assume "os_Stat x (fst (expandHomeDir x XdgConfigDir)) = Inr xi"
  then show "createXdgConfigDir x = Returned x"
    by (simp add: createXdgConfigDir_def os_IsNotExist_def)
next
  assume "os_Stat y (fst (WtfConfigDir y)) = Inr yi"
  then show "createWtfConfigDir y = Returned y"
    by (simp add: createWtfConfigDir_def os_IsNotExist_def)
qed

theorem directory_ensure_idempotent_witness:
  "createXdgConfigDir world0 = Returned world_xdg
   \<and> createXdgConfigDir world_xdg = Returned world_xdg
   \<and> createWtfConfigDir world_xdg = Returned world_wtf
   \<and> createWtfConfigDir world_wtf = Returned world_wtf
   \<and> os_Stat world_both (fst (WtfConfigDir world_both)) = Inr \<lparr>Size = 4096, IsDir = True\<rparr>
   \<and> createWtfConfigDir world_both = Returned world_both"
proof -
  have u0: "user_Current world0 = Inr \<lparr>HomeDir = ''/home/u''\<rparr>"
    and u1: "user_Current world_xdg = Inr \<lparr>HomeDir = ''/home/u''\<rparr>"
    and u2: "user_Current world_both = Inr \<lparr>HomeDir = ''/home/u''\<rparr>"
    by (simp_all add: worlds)
  have a: "createXdgConfigDir world0 = Returned world_xdg"
    by (simp add: createXdgConfigDir_def expand_u [OF u0] os_Stat_def os_IsNotExist_def)
       (simp add: worlds os_Mkdir_def)
  have b: "createWtfConfigDir world_xdg = Returned world_wtf"
    by (simp add: createWtfConfigDir_def expand_u [OF u1] os_Stat_def os_IsNotExist_def)
       (simp add: worlds os_Mkdir_def)
  have c: "os_Stat world_both (fst (WtfConfigDir world_both)) = Inr \<lparr>Size = 4096, IsDir = True\<rparr>"
    by (simp add: expand_u [OF u2] os_Stat_def) (simp add: worlds)
  from directory_ensure_idempotent
    [of world0 world_xdg world_xdg world_wtf world_both "\<lparr>Size = 4096, IsDir = True\<rparr>"
      world_both "\<lparr>Size = 4096, IsDir = True\<rparr>"] a b c
  show ?thesis by simp
qed

section \<open>Seeding the configuration file\<close>

lemma os_Create_keeps:
  "os_Create w p = (w1, e) \<Longrightarrow> q \<noteq> p \<Longrightarrow> files w1 q = files w q"
  by (auto simp: os_Create_def split: if_splits option.splits node.splits)

lemma WriteFile_keeps:
  "ioutil_WriteFile w p d = (w1, e) \<Longrightarrow> q \<noteq> p \<Longrightarrow> files w1 q = files w q"
  by (auto simp: ioutil_WriteFile_def split: if_splits option.splits node.splits)

lemma CreateFile_keeps:
  assumes "CreateFile w name = (w1, fp, e)" "files w q = Some (File b)"
  shows "files w1 q = Some (File b)"
proof -
  obtain cd ce where c: "WtfConfigDir w = (cd, ce)" by (cases "WtfConfigDir w")
  show ?thesis
  proof (cases ce)
    case (Some err)
    with assms c show ?thesis by (simp add: CreateFile_def)
  next
    case None
    let ?p = "cd @ ''/'' @ name"
    show ?thesis
    proof (cases "os_Stat w ?p")
      case (Inr info)
      with assms c None show ?thesis by (simp add: CreateFile_def)
    next
      case (Inl err)
      show ?thesis
      proof (cases "err = ErrNotExist")
        case False
        with assms c None Inl show ?thesis
          by (simp add: CreateFile_def os_IsNotExist_def)
      next
        case True
        with Inl os_Stat_NotExist [of w ?p] have "files w ?p = None" by simp
        with assms have ne: "q \<noteq> ?p" by auto
        obtain w2 e2 where cr: "os_Create w ?p = (w2, e2)" by (cases "os_Create w ?p")
        from os_Create_keeps [OF cr ne] have "files w2 q = files w q" .
        moreover from assms c None Inl True cr have "w1 = w2"
          by (cases e2) (simp_all add: CreateFile_def os_IsNotExist_def)
        ultimately show ?thesis using assms by simp
      qed
    qed
  qed
qed

lemma createWtfConfigFile_keeps_content:
  assumes "files w p = Some (File b)" "b \<noteq> []"
  shows "files (final (createWtfConfigFile defaultConfigFile w)) p = Some (File b)"
proof -
  obtain w1 fp err where cf: "CreateFile w ''config.yml'' = (w1, fp, err)"
    by (cases "CreateFile w ''config.yml''") auto
  from CreateFile_keeps [OF cf assms(1)] have k1: "files w1 p = Some (File b)" .
  show ?thesis
  proof (cases "err \<noteq> None")
    case True
    with cf k1 show ?thesis by (simp add: createWtfConfigFile_def)
  next
    case False
    show ?thesis
    proof (cases "os_Stat w1 fp")
      case (Inl e)
      with cf k1 False show ?thesis by (simp add: createWtfConfigFile_def)
    next
      case (Inr fi)
      show ?thesis
      proof (cases "Size fi = 0")
        case False
        with cf k1 Inr \<open>\<not> err \<noteq> None\<close> show ?thesis by (simp add: createWtfConfigFile_def)
      next
        case True
        have ne: "p \<noteq> fp"
        proof
          assume "p = fp"
          with k1 os_Stat_size [OF Inr] have "Size fi = length b" by simp
          with True assms(2) show False by simp
        qed
        obtain w2 e2 where wr: "ioutil_WriteFile w1 fp defaultConfigFile = (w2, e2)"
          by (cases "ioutil_WriteFile w1 fp defaultConfigFile")
        from WriteFile_keeps [OF wr ne] k1 have "files w2 p = Some (File b)" by simp
        with cf Inr True wr \<open>\<not> err \<noteq> None\<close> show ?thesis
          by (cases e2) (simp_all add: createWtfConfigFile_def)
      qed
    qed
  qed
qed

text \<open>
  C7. Every file that holds at least one byte before \<open>createWtfConfigFile\<close> holds the
  same bytes after it, however the call ends; and when the configuration file is found
  with a size other than zero, the call returns with the world unchanged.
\<close>

theorem seeding_keeps_content:
  "(files w p = Some (File b) \<and> b \<noteq> [] \<longrightarrow>
      files (final (createWtfConfigFile defaultConfigFile w)) p = Some (File b))
   \<and> (snd (WtfConfigDir w) = None
      \<and> os_Stat w (fst (WtfConfigDir w) @ ''/config.yml'') = Inr info \<and> Size info \<noteq> 0 \<longrightarrow>
      createWtfConfigFile defaultConfigFile w = Returned w)"
proof (intro conjI impI)
  assume "files w p = Some (File b) \<and> b \<noteq> []"
  then show "files (final (createWtfConfigFile defaultConfigFile w)) p = Some (File b)"
    using createWtfConfigFile_keeps_content [of w p b defaultConfigFile] by simp
next
  assume a: "snd (WtfConfigDir w) = None
      \<and> os_Stat w (fst (WtfConfigDir w) @ ''/config.yml'') = Inr info \<and> Size info \<noteq> 0"
  obtain d where d: "WtfConfigDir w = (d, None)"
    using a by (cases "WtfConfigDir w") auto
  with a have s: "os_Stat w (d @ ''/config.yml'') = Inr info" by simp
  then have "CreateFile w ''config.yml'' = (w, d @ ''/config.yml'', None)"
    by (simp add: CreateFile_def d)
  with s a show "createWtfConfigFile defaultConfigFile w = Returned w"
    by (simp add: createWtfConfigFile_def)
qed

lemma u_seeded: "user_Current world_seeded = Inr \<lparr>HomeDir = ''/home/u''\<rparr>"
  by (simp add: worlds)

theorem seeding_keeps_content_witness:
  "files world_seeded ''/home/u/.config/wtf/config.yml'' = Some (File ''foo: bar'')
   \<and> os_Stat world_seeded (fst (WtfConfigDir world_seeded) @ ''/config.yml'')
       = Inr \<lparr>Size = 8, IsDir = False\<rparr>
   \<and> files (final (createWtfConfigFile ''wtf:'' world_seeded)) ''/home/u/.config/wtf/config.yml''
       = Some (File ''foo: bar'')
   \<and> createWtfConfigFile ''wtf:'' world_seeded = Returned world_seeded"
proof -
  have f: "files world_seeded ''/home/u/.config/wtf/config.yml'' = Some (File ''foo: bar'')"
    by (simp add: worlds)
  have s: "os_Stat world_seeded (fst (WtfConfigDir world_seeded) @ ''/config.yml'')
       = Inr \<lparr>Size = 8, IsDir = False\<rparr>"
    by (simp add: expand_u [OF u_seeded] os_Stat_def) (simp add: worlds)
  have d: "snd (WtfConfigDir world_seeded) = None"
    by (simp add: expand_u [OF u_seeded])
  from seeding_keeps_content
    [of world_seeded "''/home/u/.config/wtf/config.yml''" "''foo: bar''" "''wtf:''"
      "\<lparr>Size = 8, IsDir = False\<rparr>"] f s d
  show ?thesis by simp
qed

text \<open>
  C10. When \<open>CreateFile\<close> has succeeded, the file is empty and writing the default
  content fails, \<open>createWtfConfigFile\<close> panics with the variable \<open>err\<close> of the
  earlier call, which is nil: the error of the write is not part of the outcome.
\<close>

theorem createWtfConfigFile_write_failure:
  assumes "CreateFile w ''config.yml'' = (w1, filePath, None)"
    and "os_Stat w1 filePath = Inr file" and "Size file = 0"
    and "ioutil_WriteFile w1 filePath defaultConfigFile = (w2, Some werr)"
  shows "createWtfConfigFile defaultConfigFile w = Panicked (PanicError None) w2"
  using assms by (simp add: createWtfConfigFile_def)

lemma u_unwritable: "user_Current world_unwritable = Inr \<lparr>HomeDir = ''/home/u''\<rparr>"
  by (simp add: worlds)

theorem createWtfConfigFile_write_failure_witness:
  "ioutil_WriteFile
       (world_unwritable\<lparr>files :=
          (files world_unwritable)(''/home/u/.config/wtf/config.yml'' \<mapsto> File [])\<rparr>)
       ''/home/u/.config/wtf/config.yml'' ''wtf:''
     = (world_unwritable\<lparr>files :=
          (files world_unwritable)(''/home/u/.config/wtf/config.yml'' \<mapsto> File [])\<rparr>,
        Some (SyscallError ''no space left on device''))
   \<and> createWtfConfigFile ''wtf:'' world_unwritable
     = Panicked (PanicError None)
         (world_unwritable\<lparr>files :=
            (files world_unwritable)(''/home/u/.config/wtf/config.yml'' \<mapsto> File [])\<rparr>)"
proof -
  let ?fp = "''/home/u/.config/wtf/config.yml''"
  let ?w1 = "world_unwritable\<lparr>files := (files world_unwritable)(?fp \<mapsto> File [])\<rparr>"
  have absent: "files world_unwritable ?fp = None" "stat_fault world_unwritable ?fp = None"
    "create_fault world_unwritable ?fp = None"
    "write_fault world_unwritable ?fp = Some ''no space left on device''"
    by (simp_all add: worlds)
  have c: "CreateFile world_unwritable ''config.yml'' = (?w1, ?fp, None)"
    by (simp add: CreateFile_def expand_u [OF u_unwritable] os_Stat_def os_Create_def
        os_IsNotExist_def absent Let_def)
  have s: "os_Stat ?w1 ?fp = Inr \<lparr>Size = 0, IsDir = False\<rparr>"
    by (simp add: os_Stat_def absent)
  have z: "Size \<lparr>Size = 0, IsDir = False\<rparr> = 0" by simp
  have wr: "ioutil_WriteFile ?w1 ?fp ''wtf:'' = (?w1, Some (SyscallError ''no space left on device''))"
    by (simp add: ioutil_WriteFile_def absent)
  from createWtfConfigFile_write_failure [OF c s z wr] wr show ?thesis by simp
qed

end
